theory Spec2Isabelle
  imports Main "HOL-Library.Sublist"
begin

section \<open>Values of the program\<close>

text \<open>
  The bot (\<^verbatim>\<open>src/bot.py\<close>) is glue around four collaborators: the chat platform
  (\<^verbatim>\<open>reply_text\<close>, \<^verbatim>\<open>edit_text\<close>, \<^verbatim>\<open>reply_video\<close>), the download library
  (\<^verbatim>\<open>gdown.download\<close>), the file system (\<^verbatim>\<open>open\<close>, \<^verbatim>\<open>os.path.exists\<close>,
  \<^verbatim>\<open>os.remove\<close>) and the storage engine (\<^verbatim>\<open>sqlite3\<close>). The handlers are embedded as
  functions on an explicit world; what a collaborator answers is read from an environment of
  oracles, so a theorem quantified over the environment speaks about every behaviour of the
  collaborators.

  A Python \<^verbatim>\<open>str\<close> is a \<open>string\<close> holding its UTF-8 bytes. The test \<^verbatim>\<open>a in b\<close> on
  \<^verbatim>\<open>str\<close> is \<open>sublist a b\<close>, the contiguous-sublist test of the library; on UTF-8
  bytes it agrees with the test on code points.
\<close>

text \<open>
  Exceptions. Only the class (which \<^verbatim>\<open>except\<close> clause catches it) and the text that
  \<^verbatim>\<open>str(e)\<close> gives matter to the handlers. \<open>PlainException\<close> is \<^verbatim>\<open>Exception\<close>
  itself or any of its subclasses not named here. \<open>CancelledError\<close>
  (\<^verbatim>\<open>asyncio.CancelledError\<close>), \<open>KeyboardInterrupt\<close> and \<open>OtherBaseException\<close> stand for
  the classes that derive from \<^verbatim>\<open>BaseException\<close> but not from \<^verbatim>\<open>Exception\<close>: a clause
  \<^verbatim>\<open>except Exception\<close> does not catch them.
\<close>

datatype exn_class =
    TelegramError | Sqlite3Error | OSError | UnboundLocalError | AttributeError | PlainException
  | CancelledError | KeyboardInterrupt | OtherBaseException

datatype exn = Exn exn_class string

fun class_of :: "exn \<Rightarrow> exn_class" where
  "class_of (Exn c m) = c"

fun str_exn :: "exn \<Rightarrow> string" where
  "str_exn (Exn c m) = m"

text \<open>\<^verbatim>\<open>isinstance(e, Exception)\<close>.\<close>

fun is_exception :: "exn_class \<Rightarrow> bool" where
  "is_exception CancelledError = False"
| "is_exception KeyboardInterrupt = False"
| "is_exception OtherBaseException = False"
| "is_exception c = True"

text \<open>\<^verbatim>\<open>str(n)\<close> of a Python int: decimal digits, with a minus sign below zero.\<close>

definition digit_char :: "nat \<Rightarrow> char" where
  "digit_char d = char_of (48 + d)"

function str_nat :: "nat \<Rightarrow> string" where
  "str_nat n = (if n < 10 then [digit_char n] else str_nat (n div 10) @ [digit_char (n mod 10)])"
  by pat_completeness auto
termination
  by (relation "measure (\<lambda>n. n)") auto

definition str_int :: "int \<Rightarrow> string" where
  "str_int i = (if i < 0 then CHR ''-'' # str_nat (nat (- i)) else str_nat (nat i))"

text \<open>The part of a Telegram \<^verbatim>\<open>Update\<close> that \<^verbatim>\<open>handle_link\<close> reads.\<close>

record update =
  message_text :: string
  from_user_id :: int

text \<open>
  One row of the table \<^verbatim>\<open>videos\<close>, with the columns of the
  \<^verbatim>\<open>CREATE TABLE\<close> statement of \<^verbatim>\<open>setup_database\<close>.
\<close>

record row =
  row_id :: nat
  user_id :: string
  original_link :: string
  telegram_file :: "string option"
  status :: string
  created_at :: string

text \<open>
  What the user sees in the chat: text messages, uploaded videos (by file id), and
  uploads that the platform delivered as something else than a video.
\<close>

datatype message = TextMessage string | VideoMessage string | MediaMessage

text \<open>Every call that leaves the handler is recorded, in order.\<close>

datatype event =
    ReplyText string
  | EditText nat string
  | GdownDownload string
  | OpenFile string
  | ReplyVideo string
  | LogToDb string string "string option" string
  | OsRemove string
  | LoggerError string
  | LoggerInfo string

type_synonym database = "(string \<times> row list) list"

text \<open>
  \<open>sqlite_sequence\<close> is the table of that name which SQLite keeps for
  \<^verbatim>\<open>AUTOINCREMENT\<close> columns: for each table the largest row id ever used (0 when none).
\<close>

record world =
  files :: "string set"
  db :: database
  sqlite_sequence :: "string \<Rightarrow> nat"
  chat :: "message list"
  trace :: "event list"

datatype sql_statement = CreateTableVideos | InsertIntoVideos

text \<open>
  The environment: what each collaborator answers. \<open>None\<close> is success where an option is
  returned, and a string is the message of the error raised otherwise. The answer of
  \<^verbatim>\<open>reply_video\<close> is an error or the \<^verbatim>\<open>Message\<close> sent, of which the handler reads
  \<^verbatim>\<open>.video.file_id\<close>: \<open>Inr (Some f)\<close> is a message whose \<^verbatim>\<open>video\<close> has file id
  \<open>f\<close>, \<open>Inr None\<close> a message whose \<^verbatim>\<open>video\<close> is \<^verbatim>\<open>None\<close>.
\<close>

record env =
  reply_text_result :: "string \<Rightarrow> exn option"
  edit_text_result :: "string \<Rightarrow> exn option"
  gdown_download_result :: "string \<Rightarrow> string set \<Rightarrow> (exn + string option) \<times> string set"
  open_result :: "string \<Rightarrow> string set \<Rightarrow> string option"
  reply_video_result :: "string \<Rightarrow> exn + string option"
  os_remove_result :: "string \<Rightarrow> string option"
  sqlite3_connect_result :: "string \<Rightarrow> string option"
  sqlite3_execute_result :: "sql_statement \<Rightarrow> string option"
  sqlite3_commit_result :: "string option"
  current_timestamp :: string

section \<open>Constants and message texts\<close>

definition DB_FILE :: string where
  "DB_FILE = ''videos.db''"

definition GET_LINK :: int where
  "GET_LINK = 0"

text \<open>\<^verbatim>\<open>ConversationHandler.END\<close> of python-telegram-bot.\<close>

definition END :: int where
  "END = - 1"

definition cross_mark :: string where
  "cross_mark = [CHR 0xE2, CHR 0x9D, CHR 0x8C]"

definition host_marker :: string where
  "host_marker = ''drive.google.com''"

definition warning_text :: string where
  "warning_text = [CHR 0xE2, CHR 0x9A, CHR 0xA0, CHR 0xEF, CHR 0xB8, CHR 0x8F]
     @ '' This doesn'' @ [CHR 0x27] @ ''t look like a valid Google Drive link. ''
     @ ''Please check the link and try /convertvd again.''"

definition downloading_text :: string where
  "downloading_text = [CHR 0xE2, CHR 0x8F, CHR 0xB3] @ '' Downloading video...''"

definition uploading_text :: string where
  "uploading_text = [CHR 0xF0, CHR 0x9F, CHR 0x93, CHR 0xA4] @ '' Uploading to Telegram...''"

definition complete_text :: string where
  "complete_text = [CHR 0xE2, CHR 0x9C, CHR 0x85] @ '' Upload complete!''"

definition download_failed_text :: string where
  "download_failed_text = ''Download failed. File might be private or deleted.''"

definition too_big_marker :: string where
  "too_big_marker = ''File is too big''"

definition timed_out_marker :: string where
  "timed_out_marker = ''Timed out''"

definition too_big_text :: string where
  "too_big_text = cross_mark
     @ '' Error: The video file is too large for me to upload to Telegram (max 2GB).''"

definition timed_out_text :: string where
  "timed_out_text = cross_mark
     @ '' Error: The upload to Telegram timed out. This can happen with large files or network issues. Please try again.''"

definition upload_error_text :: "string \<Rightarrow> string" where
  "upload_error_text m = cross_mark @ '' An error occurred during upload: '' @ m"

definition unexpected_error_text :: "string \<Rightarrow> string" where
  "unexpected_error_text m = cross_mark @ '' An unexpected error occurred: '' @ m"

text \<open>
  The text of the \<^verbatim>\<open>UnboundLocalError\<close> that reading the never-assigned local
  \<^verbatim>\<open>conn\<close> raises (the wording of CPython 3.11 and later).
\<close>

definition unbound_conn_text :: string where
  "unbound_conn_text = ''cannot access local variable '' @ [CHR 0x27] @ ''conn'' @ [CHR 0x27]
     @ '' where it is not associated with a value''"

text \<open>The text of the \<^verbatim>\<open>AttributeError\<close> that \<^verbatim>\<open>None.file_id\<close> raises.\<close>

definition none_file_id_text :: string where
  "none_file_id_text = [CHR 0x27] @ ''NoneType'' @ [CHR 0x27] @ '' object has no attribute ''
     @ [CHR 0x27] @ ''file_id'' @ [CHR 0x27]"

section \<open>Collaborator calls\<close>

definition emit :: "event \<Rightarrow> world \<Rightarrow> world" where
  "emit e w = w\<lparr>trace := trace w @ [e]\<rparr>"

definition logger_error :: "string \<Rightarrow> world \<Rightarrow> world" where
  "logger_error m w = emit (LoggerError m) w"

definition logger_info :: "string \<Rightarrow> world \<Rightarrow> world" where
  "logger_info m w = emit (LoggerInfo m) w"

text \<open>
  \<^verbatim>\<open>update.message.reply_text(t)\<close>: on success the message is appended to the chat and
  its position is returned (the handle that \<^verbatim>\<open>edit_text\<close> uses later).
\<close>

definition reply_text :: "env \<Rightarrow> string \<Rightarrow> world \<Rightarrow> (exn + nat) \<times> world" where
  "reply_text env t w =
     (let w1 = emit (ReplyText t) w in
      case reply_text_result env t of
        Some e \<Rightarrow> (Inl e, w1)
      | None \<Rightarrow> (Inr (length (chat w1)), w1\<lparr>chat := chat w1 @ [TextMessage t]\<rparr>))"

definition edit_text :: "env \<Rightarrow> nat \<Rightarrow> string \<Rightarrow> world \<Rightarrow> (exn + unit) \<times> world" where
  "edit_text env m t w =
     (let w1 = emit (EditText m t) w in
      case edit_text_result env t of
        Some e \<Rightarrow> (Inl e, w1)
      | None \<Rightarrow> (Inr (), w1\<lparr>chat := (chat w1)[m := TextMessage t]\<rparr>))"

text \<open>\<^verbatim>\<open>gdown.download(link, quiet=False, fuzzy=True)\<close>.\<close>

definition gdown_download :: "env \<Rightarrow> string \<Rightarrow> world \<Rightarrow> (exn + string option) \<times> world" where
  "gdown_download env link w =
     (let w1 = emit (GdownDownload link) w in
      case gdown_download_result env link (files w1) of
        (r, fs) \<Rightarrow> (r, w1\<lparr>files := fs\<rparr>))"

text \<open>\<^verbatim>\<open>open(path, "rb")\<close>: an \<^verbatim>\<open>OSError\<close> or an open file.\<close>

definition open_rb :: "env \<Rightarrow> string \<Rightarrow> world \<Rightarrow> (exn + unit) \<times> world" where
  "open_rb env p w =
     (let w1 = emit (OpenFile p) w in
      case open_result env p (files w1) of
        Some m \<Rightarrow> (Inl (Exn OSError m), w1)
      | None \<Rightarrow> (Inr (), w1))"

text \<open>
  \<^verbatim>\<open>update.message.reply_video(video=f, supports_streaming=True)\<close>; the value returned
  is the \<^verbatim>\<open>video\<close> attribute of the message sent: its file id, or \<open>None\<close>.
\<close>

definition reply_video ::
    "env \<Rightarrow> string \<Rightarrow> world \<Rightarrow> (exn + string option) \<times> world" where
  "reply_video env p w =
     (let w1 = emit (ReplyVideo p) w in
      case reply_video_result env p of
        Inl e \<Rightarrow> (Inl e, w1)
      | Inr None \<Rightarrow> (Inr None, w1\<lparr>chat := chat w1 @ [MediaMessage]\<rparr>)
      | Inr (Some file_id) \<Rightarrow>
          (Inr (Some file_id), w1\<lparr>chat := chat w1 @ [VideoMessage file_id]\<rparr>))"

text \<open>\<^verbatim>\<open>os.path.exists\<close>: the empty path names no file.\<close>

definition os_path_exists :: "string \<Rightarrow> world \<Rightarrow> bool" where
  "os_path_exists p w = (p \<noteq> [] \<and> p \<in> files w)"

text \<open>\<^verbatim>\<open>os.remove\<close>: a failed removal leaves the file where it is.\<close>

definition os_remove :: "env \<Rightarrow> string \<Rightarrow> world \<Rightarrow> (exn + unit) \<times> world" where
  "os_remove env p w =
     (let w1 = emit (OsRemove p) w in
      case os_remove_result env p of
        Some m \<Rightarrow> (Inl (Exn OSError m), w1)
      | None \<Rightarrow> (Inr (), w1\<lparr>files := files w1 - {p}\<rparr>))"

section \<open>The storage engine\<close>

text \<open>
  The database is its catalogue: table names with their rows, in creation order.
  \<^verbatim>\<open>CREATE TABLE IF NOT EXISTS\<close> adds an empty table only when the name is free; a
  data definition statement takes effect when executed. An \<^verbatim>\<open>INSERT\<close> opens a
  transaction, and its row is kept only when \<^verbatim>\<open>commit\<close> succeeds (closing the
  connection rolls an open transaction back).
\<close>

definition table_names :: "database \<Rightarrow> string list" where
  "table_names d = map fst d"


text \<open>
  \<^verbatim>\<open>INTEGER PRIMARY KEY AUTOINCREMENT\<close>: one more than the largest id ever used in the
  table, which is the larger of the value recorded in \<^verbatim>\<open>sqlite_sequence\<close> and the
  largest id present.
\<close>

definition next_row_id :: "nat \<Rightarrow> row list \<Rightarrow> nat" where
  "next_row_id seq rs = Suc (max seq (fold max (map row_id rs) 0))"

definition insert_into :: "string \<Rightarrow> row \<Rightarrow> database \<Rightarrow> database" where
  "insert_into name r d = map (\<lambda>(n, rs). if n = name then (n, rs @ [r]) else (n, rs)) d"

text \<open>The rows of the ledger table; no rows when the table is missing.\<close>

definition videos :: "world \<Rightarrow> row list" where
  "videos w = (case map_of (db w) ''videos'' of None \<Rightarrow> [] | Some rs \<Rightarrow> rs)"

section \<open>Database functions\<close>


definition log_to_db ::
    "env \<Rightarrow> int \<Rightarrow> string \<Rightarrow> string option \<Rightarrow> string \<Rightarrow> world \<Rightarrow> (exn + unit) \<times> world" where
  "log_to_db env uid link telegram_file_id st w =
     (let w0 = emit (LogToDb (str_int uid) link telegram_file_id st) w in
      case sqlite3_connect_result env DB_FILE of
        Some m \<Rightarrow>
          (Inl (Exn UnboundLocalError unbound_conn_text),
           logger_error (''Failed to log to database: '' @ m) w0)
      | None \<Rightarrow>
          (if ''videos'' \<notin> set (table_names (db w0))
           then (Inr (), logger_error (''Failed to log to database: no such table: videos'') w0)
           else
             (case sqlite3_execute_result env InsertIntoVideos of
                Some m \<Rightarrow> (Inr (), logger_error (''Failed to log to database: '' @ m) w0)
              | None \<Rightarrow>
                  (case sqlite3_commit_result env of
                     Some m \<Rightarrow> (Inr (), logger_error (''Failed to log to database: '' @ m) w0)
                   | None \<Rightarrow>
                       (let i = next_row_id (sqlite_sequence w0 ''videos'') (videos w0) in
                        (Inr (),
                         w0\<lparr>db := insert_into ''videos''
                                   \<lparr>row_id = i, user_id = str_int uid, original_link = link,
                                    telegram_file = telegram_file_id, status = st,
                                    created_at = current_timestamp env\<rparr>
                                   (db w0),
                            sqlite_sequence := (sqlite_sequence w0)(''videos'' := i)\<rparr>))))))"

section \<open>The link handler\<close>

text \<open>
  The body of the \<^verbatim>\<open>try\<close> statement of \<^verbatim>\<open>handle_link\<close>. Besides the outcome it
  returns the local \<^verbatim>\<open>output_path\<close>, which the \<^verbatim>\<open>finally\<close> clause reads: it is
  assigned only when \<^verbatim>\<open>gdown.download\<close> returns. After the upload,
  \<^verbatim>\<open>sent_video.video.file_id\<close> raises \<^verbatim>\<open>AttributeError\<close> when the message sent has no
  \<^verbatim>\<open>video\<close>.
\<close>

definition try_body ::
    "env \<Rightarrow> update \<Rightarrow> nat \<Rightarrow> world \<Rightarrow> (exn + unit) \<times> string option \<times> world" where
  "try_body env upd status_msg w =
     (let link = message_text upd; uid = from_user_id upd in
      case gdown_download env link w of
        (Inl e, w1) \<Rightarrow> (Inl e, None, w1)
      | (Inr None, w1) \<Rightarrow> (Inl (Exn PlainException download_failed_text), None, w1)
      | (Inr (Some output_path), w1) \<Rightarrow>
          (case edit_text env status_msg uploading_text w1 of
             (Inl e, w2) \<Rightarrow> (Inl e, Some output_path, w2)
           | (Inr _, w2) \<Rightarrow>
               (case open_rb env output_path w2 of
                  (Inl e, w3) \<Rightarrow> (Inl e, Some output_path, w3)
                | (Inr _, w3) \<Rightarrow>
                    (case reply_video env output_path w3 of
                       (Inl e, w4) \<Rightarrow> (Inl e, Some output_path, w4)
                     | (Inr None, w4) \<Rightarrow>
                         (Inl (Exn AttributeError none_file_id_text), Some output_path, w4)
                     | (Inr (Some telegram_file_id), w4) \<Rightarrow>
                         (case log_to_db env uid link (Some telegram_file_id) ''done'' w4 of
                            (Inl e, w5) \<Rightarrow> (Inl e, Some output_path, w5)
                          | (Inr _, w5) \<Rightarrow>
                              (case edit_text env status_msg complete_text w5 of
                                 (Inl e, w6) \<Rightarrow> (Inl e, Some output_path, w6)
                               | (Inr _, w6) \<Rightarrow> (Inr (), Some output_path, w6)))))))"

text \<open>The message that the \<^verbatim>\<open>except TelegramError\<close> clause chooses from \<^verbatim>\<open>str(e)\<close>.\<close>

definition telegram_error_text :: "string \<Rightarrow> string" where
  "telegram_error_text m =
     (if sublist too_big_marker m then too_big_text
      else if sublist timed_out_marker m then timed_out_text
      else upload_error_text m)"

text \<open>
  The two \<^verbatim>\<open>except\<close> clauses. An exception raised inside a clause is not caught by
  the other one: it leaves the \<^verbatim>\<open>try\<close> statement (after the \<^verbatim>\<open>finally\<close> clause).
\<close>

definition except_telegram_error ::
    "env \<Rightarrow> update \<Rightarrow> nat \<Rightarrow> exn \<Rightarrow> world \<Rightarrow> (exn + unit) \<times> world" where
  "except_telegram_error env upd status_msg e w =
     (let w1 = logger_error (''Telegram upload error: '' @ str_exn e) w in
      case edit_text env status_msg (telegram_error_text (str_exn e)) w1 of
        (Inl e', w2) \<Rightarrow> (Inl e', w2)
      | (Inr _, w2) \<Rightarrow> log_to_db env (from_user_id upd) (message_text upd) None ''error'' w2)"

definition except_exception ::
    "env \<Rightarrow> update \<Rightarrow> nat \<Rightarrow> exn \<Rightarrow> world \<Rightarrow> (exn + unit) \<times> world" where
  "except_exception env upd status_msg e w =
     (let w1 = logger_error (''An unexpected error occurred: '' @ str_exn e) w in
      case edit_text env status_msg (unexpected_error_text (str_exn e)) w1 of
        (Inl e', w2) \<Rightarrow> (Inl e', w2)
      | (Inr _, w2) \<Rightarrow> log_to_db env (from_user_id upd) (message_text upd) None ''error'' w2)"

text \<open>
  The \<^verbatim>\<open>finally\<close> clause: \<^verbatim>\<open>if output_path and os.path.exists(output_path)\<close>, then
  \<^verbatim>\<open>os.remove\<close> inside its own \<^verbatim>\<open>try\<close>, whose \<^verbatim>\<open>except OSError\<close> only logs.
\<close>

definition finally_clause :: "env \<Rightarrow> string option \<Rightarrow> world \<Rightarrow> world" where
  "finally_clause env output_path w =
     (case output_path of
        None \<Rightarrow> w
      | Some p \<Rightarrow>
          (if p \<noteq> [] \<and> os_path_exists p w then
             (case os_remove env p w of
                (Inl e, w1) \<Rightarrow>
                  logger_error (''Error deleting file '' @ p @ '': '' @ str_exn e) w1
              | (Inr _, w1) \<Rightarrow> logger_info (''Successfully deleted local file: '' @ p) w1)
           else w))"

text \<open>
  \<^verbatim>\<open>handle_link\<close>. \<open>Inr END\<close> is the normal return; \<open>Inl e\<close> is the exception
  \<open>e\<close> leaving the handler. An exception of the \<^verbatim>\<open>try\<close> body that is neither a
  \<^verbatim>\<open>TelegramError\<close> nor an \<^verbatim>\<open>Exception\<close> is caught by no clause: the \<^verbatim>\<open>finally\<close>
  clause runs and the exception goes on.
\<close>

definition handle_link :: "env \<Rightarrow> update \<Rightarrow> world \<Rightarrow> (exn + int) \<times> world" where
  "handle_link env upd w =
     (let link = message_text upd in
      if \<not> sublist host_marker link then
        (case reply_text env warning_text w of
           (Inl e, w1) \<Rightarrow> (Inl e, w1)
         | (Inr _, w1) \<Rightarrow> (Inr END, w1))
      else
        (case reply_text env downloading_text w of
           (Inl e, w1) \<Rightarrow> (Inl e, w1)
         | (Inr status_msg, w1) \<Rightarrow>
             (case try_body env upd status_msg w1 of
                (Inr _, output_path, w2) \<Rightarrow> (Inr END, finally_clause env output_path w2)
              | (Inl e, output_path, w2) \<Rightarrow>
                  (if class_of e = TelegramError \<or> is_exception (class_of e) then
                     (case (if class_of e = TelegramError
                            then except_telegram_error env upd status_msg e w2
                            else except_exception env upd status_msg e w2) of
                        (Inl e', w3) \<Rightarrow> (Inl e', finally_clause env output_path w3)
                      | (Inr _, w3) \<Rightarrow> (Inr END, finally_clause env output_path w3))
                   else (Inl e, finally_clause env output_path w2)))))"

section \<open>Observations on a run\<close>

text \<open>
  The calls to \<^verbatim>\<open>log_to_db\<close> and the calls to the chat platform, in the order the
  handler made them.
\<close>

fun is_ledger_call :: "event \<Rightarrow> bool" where
  "is_ledger_call (LogToDb u l f s) = True"
| "is_ledger_call e = False"

fun is_platform_call :: "event \<Rightarrow> bool" where
  "is_platform_call (ReplyText t) = True"
| "is_platform_call (EditText m t) = True"
| "is_platform_call (ReplyVideo p) = True"
| "is_platform_call e = False"

definition ledger_calls :: "world \<Rightarrow> event list" where
  "ledger_calls w = filter is_ledger_call (trace w)"

definition platform_calls :: "world \<Rightarrow> event list" where
  "platform_calls w = filter is_platform_call (trace w)"

text \<open>
  \<^verbatim>\<open>handle_link\<close> up to its \<^verbatim>\<open>finally\<close> clause: the outcome, the value of
  \<^verbatim>\<open>output_path\<close>, and the world reached. The two early exits never enter the
  \<^verbatim>\<open>try\<close> statement; there \<^verbatim>\<open>output_path\<close> is still \<open>None\<close>, for which the
  \<^verbatim>\<open>finally\<close> clause does nothing. Lemma \<open>handle_link_before_finally\<close> relates the
  two functions.
\<close>

definition before_finally ::
    "env \<Rightarrow> update \<Rightarrow> world \<Rightarrow> (exn + int) \<times> string option \<times> world" where
  "before_finally env upd w =
     (if \<not> sublist host_marker (message_text upd) then
        (case reply_text env warning_text w of
           (Inl e, w1) \<Rightarrow> (Inl e, None, w1)
         | (Inr _, w1) \<Rightarrow> (Inr END, None, w1))
      else
        (case reply_text env downloading_text w of
           (Inl e, w1) \<Rightarrow> (Inl e, None, w1)
         | (Inr status_msg, w1) \<Rightarrow>
             (case try_body env upd status_msg w1 of
                (Inr _, output_path, w2) \<Rightarrow> (Inr END, output_path, w2)
              | (Inl e, output_path, w2) \<Rightarrow>
                  (if class_of e = TelegramError \<or> is_exception (class_of e) then
                     (case (if class_of e = TelegramError
                            then except_telegram_error env upd status_msg e w2
                            else except_exception env upd status_msg e w2) of
                        (Inl e', w3) \<Rightarrow> (Inl e', output_path, w3)
                      | (Inr _, w3) \<Rightarrow> (Inr END, output_path, w3))
                   else (Inl e, output_path, w2)))))"

section \<open>Example collaborators\<close>

text \<open>
  A platform that accepts every message, a download that stores \<^verbatim>\<open>video.mp4\<close>, an upload
  that answers with the file id \<^verbatim>\<open>FILE123\<close>, a healthy storage engine; and variations
  of it in which one collaborator fails.
\<close>

definition example_env :: env where
  "example_env =
     \<lparr>reply_text_result = (\<lambda>t. None),
      edit_text_result = (\<lambda>t. None),
      gdown_download_result = (\<lambda>link fs. (Inr (Some ''video.mp4''), insert ''video.mp4'' fs)),
      open_result = (\<lambda>p fs. None),
      reply_video_result = (\<lambda>p. Inr (Some ''FILE123'')),
      os_remove_result = (\<lambda>p. None),
      sqlite3_connect_result = (\<lambda>f. None),
      sqlite3_execute_result = (\<lambda>s. None),
      sqlite3_commit_result = None,
      current_timestamp = ''2025-01-01 00:00:00''\<rparr>"

definition example_world :: world where
  "example_world =
     \<lparr>files = {}, db = [(''videos'', [])], sqlite_sequence = (\<lambda>n. 0), chat = [], trace = []\<rparr>"

definition drive_update :: update where
  "drive_update =
     \<lparr>message_text = ''https://drive.google.com/file/d/ABC/view'', from_user_id = 42\<rparr>"

definition env_remove_fails :: env where
  "env_remove_fails = example_env\<lparr>os_remove_result := (\<lambda>p. Some ''Permission denied'')\<rparr>"

definition other_update :: update where
  "other_update = \<lparr>message_text = ''https://example.com/video.mp4'', from_user_id = 42\<rparr>"

definition env_replies_rejected :: env where
  "env_replies_rejected =
     example_env\<lparr>reply_text_result := (\<lambda>t. Some (Exn TelegramError ''Timed out''))\<rparr>"

definition env_upload_too_big :: env where
  "env_upload_too_big =
     example_env\<lparr>reply_video_result :=
       (\<lambda>p. Inl (Exn TelegramError ''File is too big: 2147483648 bytes''))\<rparr>"

definition env_upload_both_markers :: env where
  "env_upload_both_markers =
     example_env\<lparr>reply_video_result :=
       (\<lambda>p. Inl (Exn TelegramError ''Timed out: File is too big''))\<rparr>"

definition env_download_absent :: env where
  "env_download_absent = example_env\<lparr>gdown_download_result := (\<lambda>link fs. (Inr None, fs))\<rparr>"

definition env_download_absent_edits_rejected :: env where
  "env_download_absent_edits_rejected =
     env_download_absent\<lparr>edit_text_result := (\<lambda>t. Some (Exn TelegramError ''Timed out''))\<rparr>"

definition env_confirmation_rejected :: env where
  "env_confirmation_rejected =
     example_env\<lparr>edit_text_result :=
       (\<lambda>t. if t = complete_text then Some (Exn TelegramError ''Timed out'') else None)\<rparr>"

definition env_upload_timed_out_edit_rejected :: env where
  "env_upload_timed_out_edit_rejected =
     example_env\<lparr>reply_video_result := (\<lambda>p. Inl (Exn TelegramError ''Timed out'')),
                 edit_text_result :=
                   (\<lambda>t. if t = timed_out_text then Some (Exn TelegramError ''Timed out'')
                        else None)\<rparr>"

definition env_upload_both_markers_edit_rejected :: env where
  "env_upload_both_markers_edit_rejected =
     env_upload_both_markers\<lparr>edit_text_result :=
       (\<lambda>t. if t = too_big_text then Some (Exn TelegramError ''Timed out'') else None)\<rparr>"

definition env_upload_without_video :: env where
  "env_upload_without_video = example_env\<lparr>reply_video_result := (\<lambda>p. Inr None)\<rparr>"

definition env_upload_cancelled :: env where
  "env_upload_cancelled =
     example_env\<lparr>reply_video_result := (\<lambda>p. Inl (Exn CancelledError ''''))\<rparr>"

definition env_storage_unreachable :: env where
  "env_storage_unreachable =
     example_env\<lparr>sqlite3_connect_result := (\<lambda>f. Some ''unable to open database file'')\<rparr>"


definition plain_update :: update where
  "plain_update = \<lparr>message_text = ''my file is on drive.google.com'', from_user_id = 42\<rparr>"

section \<open>Lemmas\<close>

lemma handle_link_before_finally:
  "handle_link env upd w =
     (case before_finally env upd w of (r, output_path, w') \<Rightarrow> (r, finally_clause env output_path w'))"
  by (simp add: handle_link_def before_finally_def finally_clause_def Let_def
      split: prod.split sum.split)

subsection \<open>What each call changes\<close>

text \<open>
  One lemma per call: its outcome, and what it does to each component of the world. The
  handler theorems below are assembled from these, without unfolding the calls again.
\<close>

lemma reply_text_frame [simp]:
  "fst (reply_text env t w) =
     (case reply_text_result env t of None \<Rightarrow> Inr (length (chat w)) | Some e \<Rightarrow> Inl e)"
  "trace (snd (reply_text env t w)) = trace w @ [ReplyText t]"
  "chat (snd (reply_text env t w)) =
     (if reply_text_result env t = None then chat w @ [TextMessage t] else chat w)"
  "files (snd (reply_text env t w)) = files w"
  "db (snd (reply_text env t w)) = db w"
  by (simp_all add: reply_text_def emit_def Let_def split: option.split)

lemma edit_text_frame [simp]:
  "fst (edit_text env n t w) = (case edit_text_result env t of None \<Rightarrow> Inr () | Some e \<Rightarrow> Inl e)"
  "trace (snd (edit_text env n t w)) = trace w @ [EditText n t]"
  "chat (snd (edit_text env n t w)) =
     (if edit_text_result env t = None then (chat w)[n := TextMessage t] else chat w)"
  "files (snd (edit_text env n t w)) = files w"
  "db (snd (edit_text env n t w)) = db w"
  by (simp_all add: edit_text_def emit_def Let_def split: option.split)

lemma gdown_download_frame [simp]:
  "fst (gdown_download env l w) = fst (gdown_download_result env l (files w))"
  "trace (snd (gdown_download env l w)) = trace w @ [GdownDownload l]"
  "chat (snd (gdown_download env l w)) = chat w"
  "files (snd (gdown_download env l w)) = snd (gdown_download_result env l (files w))"
  "db (snd (gdown_download env l w)) = db w"
  by (simp_all add: gdown_download_def emit_def Let_def split: prod.split)

lemma open_rb_frame [simp]:
  "fst (open_rb env p w) =
     (case open_result env p (files w) of None \<Rightarrow> Inr () | Some m \<Rightarrow> Inl (Exn OSError m))"
  "trace (snd (open_rb env p w)) = trace w @ [OpenFile p]"
  "chat (snd (open_rb env p w)) = chat w"
  "files (snd (open_rb env p w)) = files w"
  "db (snd (open_rb env p w)) = db w"
  by (simp_all add: open_rb_def emit_def Let_def split: option.split)

lemma reply_video_frame [simp]:
  "fst (reply_video env p w) = reply_video_result env p"
  "trace (snd (reply_video env p w)) = trace w @ [ReplyVideo p]"
  "chat (snd (reply_video env p w)) =
     (case reply_video_result env p of
        Inl e \<Rightarrow> chat w
      | Inr None \<Rightarrow> chat w @ [MediaMessage]
      | Inr (Some f) \<Rightarrow> chat w @ [VideoMessage f])"
  "files (snd (reply_video env p w)) = files w"
  "db (snd (reply_video env p w)) = db w"
  by (simp_all add: reply_video_def emit_def Let_def split: sum.split option.split)

lemma sqlite_sequence_frame [simp]:
  "sqlite_sequence (snd (reply_text env t w)) = sqlite_sequence w"
  "sqlite_sequence (snd (edit_text env n t w)) = sqlite_sequence w"
  "sqlite_sequence (snd (gdown_download env l w)) = sqlite_sequence w"
  "sqlite_sequence (snd (open_rb env p w)) = sqlite_sequence w"
  "sqlite_sequence (snd (reply_video env p w)) = sqlite_sequence w"
  "sqlite_sequence (logger_error m w) = sqlite_sequence w"
  "sqlite_sequence (logger_info m w) = sqlite_sequence w"
  by (simp_all add: reply_text_def edit_text_def gdown_download_def open_rb_def
      reply_video_def logger_error_def logger_info_def emit_def Let_def
      split: option.split sum.split prod.split)

lemma logger_frame [simp]:
  "trace (logger_error m w) = trace w @ [LoggerError m]"
  "chat (logger_error m w) = chat w"
  "files (logger_error m w) = files w"
  "db (logger_error m w) = db w"
  "trace (logger_info m w) = trace w @ [LoggerInfo m]"
  "chat (logger_info m w) = chat w"
  "files (logger_info m w) = files w"
  "db (logger_info m w) = db w"
  by (simp_all add: logger_error_def logger_info_def emit_def)

lemma log_to_db_frame [simp]:
  "fst (log_to_db env u l f s w) =
     (case sqlite3_connect_result env DB_FILE of
        None \<Rightarrow> Inr () | Some m \<Rightarrow> Inl (Exn UnboundLocalError unbound_conn_text))"
  "chat (snd (log_to_db env u l f s w)) = chat w"
  "files (snd (log_to_db env u l f s w)) = files w"
  "filter is_ledger_call (trace (snd (log_to_db env u l f s w))) =
     filter is_ledger_call (trace w) @ [LogToDb (str_int u) l f s]"
  "filter is_platform_call (trace (snd (log_to_db env u l f s w))) =
     filter is_platform_call (trace w)"
  by (simp_all add: log_to_db_def emit_def logger_error_def Let_def split: option.split)

lemma finally_clause_frame [simp]:
  "chat (finally_clause env out w) = chat w"
  "db (finally_clause env out w) = db w"
  "filter is_ledger_call (trace (finally_clause env out w)) = filter is_ledger_call (trace w)"
  "filter is_platform_call (trace (finally_clause env out w)) = filter is_platform_call (trace w)"
  by (simp_all add: finally_clause_def os_remove_def os_path_exists_def emit_def
      logger_error_def logger_info_def Let_def split: option.split)

lemma finally_clause_files:
  "files (finally_clause env out w) =
     (case out of None \<Rightarrow> files w
      | Some p \<Rightarrow> (if p \<noteq> [] \<and> p \<in> files w \<and> os_remove_result env p = None
                   then files w - {p} else files w))"
  by (simp add: finally_clause_def os_remove_def os_path_exists_def emit_def
      logger_error_def logger_info_def Let_def split: option.split)


lemma finally_clause_trace:
  "trace (finally_clause env out w) = trace w @
     (case out of None \<Rightarrow> []
      | Some p \<Rightarrow>
          (if p \<noteq> [] \<and> p \<in> files w then
             [OsRemove p,
              (case os_remove_result env p of
                 None \<Rightarrow> LoggerInfo (''Successfully deleted local file: '' @ p)
               | Some m \<Rightarrow> LoggerError (''Error deleting file '' @ p @ '': '' @ m))]
           else []))"
  by (simp add: finally_clause_def os_remove_def os_path_exists_def emit_def
      logger_error_def logger_info_def Let_def split: option.split)

lemma videos_cong: "db w' = db w \<Longrightarrow> videos w' = videos w"
  by (simp add: videos_def)

lemma videos_frame [simp]:
  "videos (snd (reply_text env t w)) = videos w"
  "videos (snd (edit_text env n t w)) = videos w"
  "videos (snd (gdown_download env l w)) = videos w"
  "videos (snd (open_rb env p w)) = videos w"
  "videos (snd (reply_video env p w)) = videos w"
  "videos (logger_error m w) = videos w"
  "videos (logger_info m w) = videos w"
  "videos (finally_clause env out w) = videos w"
  by (simp_all add: videos_def)

lemma map_of_insert_into:
  "map_of (insert_into n r d) n = map_option (\<lambda>rs. rs @ [r]) (map_of d n)"
  by (induction d) (auto simp: insert_into_def)

lemma map_of_table_names: "n \<in> set (table_names d) \<Longrightarrow> \<exists>rs. map_of d n = Some rs"
  by (induction d) (auto simp: table_names_def)

lemma log_to_db_videos:
  assumes "sqlite3_connect_result env DB_FILE = None"
    and "''videos'' \<in> set (table_names (db w))"
    and "sqlite3_execute_result env InsertIntoVideos = None"
    and "sqlite3_commit_result env = None"
  shows "videos (snd (log_to_db env u l f s w)) = videos w @
           [\<lparr>row_id = next_row_id (sqlite_sequence w ''videos'') (videos w),
             user_id = str_int u, original_link = l,
             telegram_file = f, status = s, created_at = current_timestamp env\<rparr>]"
  using assms map_of_table_names [OF assms(2)]
  by (auto simp: log_to_db_def emit_def videos_def map_of_insert_into Let_def)

lemma log_to_db_db_tables [simp]:
  "table_names (db (snd (log_to_db env u l f s w))) = table_names (db w)"
  by (simp add: log_to_db_def emit_def logger_error_def insert_into_def table_names_def
      case_prod_beta Let_def split: option.split)

subsection \<open>Paths through the handler\<close>

lemma success_path:
  assumes "sublist host_marker (message_text upd)"
    and "reply_text_result env downloading_text = None"
    and "gdown_download_result env (message_text upd) (files w) = (Inr (Some p), fs)"
    and "edit_text_result env uploading_text = None"
    and "open_result env p fs = None"
    and "reply_video_result env p = Inr (Some file_id)"
    and "sqlite3_connect_result env DB_FILE = None"
    and "edit_text_result env complete_text = None"
  shows "before_finally env upd w =
    (Inr END, Some p,
     snd (edit_text env (length (chat w)) complete_text
      (snd (log_to_db env (from_user_id upd) (message_text upd) (Some file_id) ''done''
       (snd (reply_video env p
        (snd (open_rb env p
         (snd (edit_text env (length (chat w)) uploading_text
          (snd (gdown_download env (message_text upd)
           (snd (reply_text env downloading_text w))))))))))))))"
  using assms
  by (simp add: before_finally_def try_body_def case_prod_beta Let_def)

lemma except_telegram_error_frame [simp]:
  "fst (except_telegram_error env upd n e w) =
     (case edit_text_result env (telegram_error_text (str_exn e)) of
        Some e' \<Rightarrow> Inl e'
      | None \<Rightarrow>
          (case sqlite3_connect_result env DB_FILE of
             None \<Rightarrow> Inr () | Some m \<Rightarrow> Inl (Exn UnboundLocalError unbound_conn_text)))"
  "chat (snd (except_telegram_error env upd n e w)) =
     (if edit_text_result env (telegram_error_text (str_exn e)) = None
      then (chat w)[n := TextMessage (telegram_error_text (str_exn e))] else chat w)"
  "files (snd (except_telegram_error env upd n e w)) = files w"
  "filter is_platform_call (trace (snd (except_telegram_error env upd n e w))) =
     filter is_platform_call (trace w) @ [EditText n (telegram_error_text (str_exn e))]"
  "filter is_ledger_call (trace (snd (except_telegram_error env upd n e w))) =
     filter is_ledger_call (trace w) @
       (if edit_text_result env (telegram_error_text (str_exn e)) = None
        then [LogToDb (str_int (from_user_id upd)) (message_text upd) None ''error''] else [])"
  by (simp_all add: except_telegram_error_def case_prod_beta Let_def split: option.split)

lemma except_exception_frame [simp]:
  "fst (except_exception env upd n e w) =
     (case edit_text_result env (unexpected_error_text (str_exn e)) of
        Some e' \<Rightarrow> Inl e'
      | None \<Rightarrow>
          (case sqlite3_connect_result env DB_FILE of
             None \<Rightarrow> Inr () | Some m \<Rightarrow> Inl (Exn UnboundLocalError unbound_conn_text)))"
  "chat (snd (except_exception env upd n e w)) =
     (if edit_text_result env (unexpected_error_text (str_exn e)) = None
      then (chat w)[n := TextMessage (unexpected_error_text (str_exn e))] else chat w)"
  "files (snd (except_exception env upd n e w)) = files w"
  "filter is_platform_call (trace (snd (except_exception env upd n e w))) =
     filter is_platform_call (trace w) @ [EditText n (unexpected_error_text (str_exn e))]"
  "filter is_ledger_call (trace (snd (except_exception env upd n e w))) =
     filter is_ledger_call (trace w) @
       (if edit_text_result env (unexpected_error_text (str_exn e)) = None
        then [LogToDb (str_int (from_user_id upd)) (message_text upd) None ''error''] else [])"
  by (simp_all add: except_exception_def case_prod_beta Let_def split: option.split)

lemma except_videos:
  assumes "sqlite3_connect_result env DB_FILE = None"
    and "''videos'' \<in> set (table_names (db w))"
    and "sqlite3_execute_result env InsertIntoVideos = None"
    and "sqlite3_commit_result env = None"
  shows "edit_text_result env (telegram_error_text (str_exn e)) = None \<Longrightarrow>
         videos (snd (except_telegram_error env upd n e w)) = videos w @
           [\<lparr>row_id = next_row_id (sqlite_sequence w ''videos'') (videos w),
             user_id = str_int (from_user_id upd),
             original_link = message_text upd, telegram_file = None, status = ''error'',
             created_at = current_timestamp env\<rparr>]"
    and "edit_text_result env (unexpected_error_text (str_exn e)) = None \<Longrightarrow>
         videos (snd (except_exception env upd n e w)) = videos w @
           [\<lparr>row_id = next_row_id (sqlite_sequence w ''videos'') (videos w),
             user_id = str_int (from_user_id upd),
             original_link = message_text upd, telegram_file = None, status = ''error'',
             created_at = current_timestamp env\<rparr>]"
  using assms
  by (simp_all add: except_telegram_error_def except_exception_def case_prod_beta Let_def
      log_to_db_videos)

lemma raised_path:
  assumes "sublist host_marker (message_text upd)"
    and "reply_text_result env downloading_text = None"
    and "try_body env upd (length (chat w)) (snd (reply_text env downloading_text w))
           = (Inl e, out, w2)"
  shows "class_of e = TelegramError \<Longrightarrow>
         before_finally env upd w =
           (case fst (except_telegram_error env upd (length (chat w)) e w2) of
              Inl e' \<Rightarrow> Inl e' | Inr u \<Rightarrow> Inr END,
            out, snd (except_telegram_error env upd (length (chat w)) e w2))"
    and "class_of e \<noteq> TelegramError \<Longrightarrow> is_exception (class_of e) \<Longrightarrow>
         before_finally env upd w =
           (case fst (except_exception env upd (length (chat w)) e w2) of
              Inl e' \<Rightarrow> Inl e' | Inr u \<Rightarrow> Inr END,
            out, snd (except_exception env upd (length (chat w)) e w2))"
    and "class_of e \<noteq> TelegramError \<Longrightarrow> \<not> is_exception (class_of e) \<Longrightarrow>
         before_finally env upd w = (Inl e, out, w2)"
  using assms
  by (simp_all add: before_finally_def case_prod_beta split: sum.split)

lemma upload_raises_path:
  assumes "gdown_download_result env (message_text upd) (files w) = (Inr (Some p), fs)"
    and "edit_text_result env uploading_text = None"
    and "open_result env p fs = None"
    and "reply_video_result env p = Inl e"
  shows "try_body env upd n w =
    (Inl e, Some p,
     snd (reply_video env p
      (snd (open_rb env p
       (snd (edit_text env n uploading_text
        (snd (gdown_download env (message_text upd) w)))))))) "
  using assms
  by (simp add: try_body_def case_prod_beta Let_def)

lemma download_none_path:
  assumes "gdown_download_result env (message_text upd) (files w) = (Inr None, fs)"
  shows "try_body env upd n w =
    (Inl (Exn PlainException download_failed_text), None,
     snd (gdown_download env (message_text upd) w))"
  using assms
  by (simp add: try_body_def case_prod_beta Let_def)

lemma upload_error_run:
  assumes "sublist host_marker (message_text upd)"
    and "reply_text_result env downloading_text = None"
    and "gdown_download_result env (message_text upd) (files w) = (Inr (Some p), fs)"
    and "edit_text_result env uploading_text = None"
    and "open_result env p fs = None"
    and "reply_video_result env p = Inl (Exn TelegramError m)"
  shows "platform_calls (snd (handle_link env upd w)) = platform_calls w @
           [ReplyText downloading_text, EditText (length (chat w)) uploading_text, ReplyVideo p,
            EditText (length (chat w)) (telegram_error_text m)]"
    and "edit_text_result env (telegram_error_text m) = None \<Longrightarrow>
           chat (snd (handle_link env upd w)) = chat w @ [TextMessage (telegram_error_text m)]"
    and "ledger_calls (snd (handle_link env upd w)) = ledger_calls w @
           (if edit_text_result env (telegram_error_text m) = None
            then [LogToDb (str_int (from_user_id upd)) (message_text upd) None ''error'']
            else [])"
    and "edit_text_result env (telegram_error_text m) = Some e' \<Longrightarrow>
           chat (snd (handle_link env upd w)) = chat w @ [TextMessage uploading_text]
           \<and> fst (handle_link env upd w) = Inl e'"
proof -
  have files1: "files (snd (reply_text env downloading_text w)) = files w"
    by simp
  note path = raised_path(1) [OF assms(1,2)
      upload_raises_path [of env upd "snd (reply_text env downloading_text w)" p fs
        "Exn TelegramError m" "length (chat w)", unfolded files1, OF assms(3-6)]]
  show "chat (snd (handle_link env upd w)) = chat w @ [TextMessage uploading_text]
           \<and> fst (handle_link env upd w) = Inl e'"
    if "edit_text_result env (telegram_error_text m) = Some e'"
    using that assms(2,4,6) by (simp add: handle_link_before_finally path)
  show "platform_calls (snd (handle_link env upd w)) = platform_calls w @
           [ReplyText downloading_text, EditText (length (chat w)) uploading_text, ReplyVideo p,
            EditText (length (chat w)) (telegram_error_text m)]"
    using assms(2,4) by (simp add: handle_link_before_finally path platform_calls_def)
  show "edit_text_result env (telegram_error_text m) = None \<Longrightarrow>
           chat (snd (handle_link env upd w)) = chat w @ [TextMessage (telegram_error_text m)]"
    using assms(2,4,6) by (simp add: handle_link_before_finally path)
  show "ledger_calls (snd (handle_link env upd w)) = ledger_calls w @
           (if edit_text_result env (telegram_error_text m) = None
            then [LogToDb (str_int (from_user_id upd)) (message_text upd) None ''error'']
            else [])"
    using assms(2,4) by (simp add: handle_link_before_finally path ledger_calls_def)
qed


lemma finally_clause_None [simp]: "finally_clause env None w = w"
  by (simp add: finally_clause_def)

lemma invalid_path:
  assumes "\<not> sublist host_marker (message_text upd)"
  shows "before_finally env upd w =
           (case fst (reply_text env warning_text w) of Inl e \<Rightarrow> Inl e | Inr n \<Rightarrow> Inr END,
            None, snd (reply_text env warning_text w))"
  using assms
  by (simp add: before_finally_def case_prod_beta split: sum.split)

lemma download_absent_run:
  assumes "sublist host_marker (message_text upd)"
    and "reply_text_result env downloading_text = None"
    and "gdown_download_result env (message_text upd) (files w) = (Inr None, fs)"
  shows "platform_calls (snd (handle_link env upd w)) = platform_calls w @
           [ReplyText downloading_text,
            EditText (length (chat w)) (unexpected_error_text download_failed_text)]"
    and "chat (snd (handle_link env upd w)) = chat w @
           [TextMessage (if edit_text_result env (unexpected_error_text download_failed_text) = None
                         then unexpected_error_text download_failed_text
                         else downloading_text)]"
    and "ledger_calls (snd (handle_link env upd w)) = ledger_calls w @
           (if edit_text_result env (unexpected_error_text download_failed_text) = None
            then [LogToDb (str_int (from_user_id upd)) (message_text upd) None ''error'']
            else [])"
    and "edit_text_result env (unexpected_error_text download_failed_text) = None \<Longrightarrow>
         sqlite3_connect_result env DB_FILE = None \<Longrightarrow>
         ''videos'' \<in> set (table_names (db w)) \<Longrightarrow>
         sqlite3_execute_result env InsertIntoVideos = None \<Longrightarrow>
         sqlite3_commit_result env = None \<Longrightarrow>
         videos (snd (handle_link env upd w)) = videos w @
           [\<lparr>row_id = next_row_id (sqlite_sequence w ''videos'') (videos w),
             user_id = str_int (from_user_id upd),
             original_link = message_text upd, telegram_file = None, status = ''error'',
             created_at = current_timestamp env\<rparr>]"
proof -
  have files1: "files (snd (reply_text env downloading_text w)) = files w"
    by simp
  note path = raised_path(2) [OF assms(1,2)
      download_none_path [of env upd "snd (reply_text env downloading_text w)" fs
        "length (chat w)", unfolded files1, OF assms(3)]]
  show "platform_calls (snd (handle_link env upd w)) = platform_calls w @
           [ReplyText downloading_text,
            EditText (length (chat w)) (unexpected_error_text download_failed_text)]"
    using assms(2) by (simp add: handle_link_before_finally path platform_calls_def)
  show "chat (snd (handle_link env upd w)) = chat w @
           [TextMessage (if edit_text_result env (unexpected_error_text download_failed_text) = None
                         then unexpected_error_text download_failed_text
                         else downloading_text)]"
    using assms(2) by (simp add: handle_link_before_finally path)
  show "ledger_calls (snd (handle_link env upd w)) = ledger_calls w @
           (if edit_text_result env (unexpected_error_text download_failed_text) = None
            then [LogToDb (str_int (from_user_id upd)) (message_text upd) None ''error'']
            else [])"
    using assms(2) by (simp add: handle_link_before_finally path ledger_calls_def)
  show "videos (snd (handle_link env upd w)) = videos w @
           [\<lparr>row_id = next_row_id (sqlite_sequence w ''videos'') (videos w),
             user_id = str_int (from_user_id upd),
             original_link = message_text upd, telegram_file = None, status = ''error'',
             created_at = current_timestamp env\<rparr>]"
    if "edit_text_result env (unexpected_error_text download_failed_text) = None"
      and "sqlite3_connect_result env DB_FILE = None"
      and "''videos'' \<in> set (table_names (db w))"
      and "sqlite3_execute_result env InsertIntoVideos = None"
      and "sqlite3_commit_result env = None"
    using that assms(2)
    by (simp add: handle_link_before_finally path except_videos(2))
qed


lemma ledger_raises_path:
  assumes "gdown_download_result env (message_text upd) (files w) = (Inr (Some p), fs)"
    and "edit_text_result env uploading_text = None"
    and "open_result env p fs = None"
    and "reply_video_result env p = Inr (Some file_id)"
    and "sqlite3_connect_result env DB_FILE = Some m"
  shows "try_body env upd n w =
    (Inl (Exn UnboundLocalError unbound_conn_text), Some p,
     snd (log_to_db env (from_user_id upd) (message_text upd) (Some file_id) ''done''
      (snd (reply_video env p
       (snd (open_rb env p
        (snd (edit_text env n uploading_text
         (snd (gdown_download env (message_text upd) w)))))))))) "
  using assms
  by (simp add: try_body_def case_prod_beta Let_def)

lemma ledger_raises_run:
  assumes "sublist host_marker (message_text upd)"
    and "reply_text_result env downloading_text = None"
    and "gdown_download_result env (message_text upd) (files w) = (Inr (Some p), fs)"
    and "edit_text_result env uploading_text = None"
    and "open_result env p fs = None"
    and "reply_video_result env p = Inr (Some file_id)"
    and "sqlite3_connect_result env DB_FILE = Some m"
    and "edit_text_result env (unexpected_error_text unbound_conn_text) = None"
  shows "fst (handle_link env upd w) = Inl (Exn UnboundLocalError unbound_conn_text)"
    and "chat (snd (handle_link env upd w)) =
           chat w @ [TextMessage (unexpected_error_text unbound_conn_text), VideoMessage file_id]"
proof -
  have files1: "files (snd (reply_text env downloading_text w)) = files w"
    by simp
  note path = raised_path(2) [OF assms(1,2)
      ledger_raises_path [of env upd "snd (reply_text env downloading_text w)" p fs file_id m
        "length (chat w)", unfolded files1, OF assms(3-7)]]
  show "fst (handle_link env upd w) = Inl (Exn UnboundLocalError unbound_conn_text)"
    using assms(7,8) by (simp add: handle_link_before_finally path)
  show "chat (snd (handle_link env upd w)) =
           chat w @ [TextMessage (unexpected_error_text unbound_conn_text), VideoMessage file_id]"
    using assms(2,4,6,8) by (simp add: handle_link_before_finally path list_update_append)
qed



lemma handle_link_outcome: "fst (handle_link env upd w) = fst (before_finally env upd w)"
  by (simp add: handle_link_before_finally case_prod_beta)

lemma calls_env:
  "reply_text (env\<lparr>os_remove_result := r\<rparr>) = reply_text env"
  "edit_text (env\<lparr>os_remove_result := r\<rparr>) = edit_text env"
  "gdown_download (env\<lparr>os_remove_result := r\<rparr>) = gdown_download env"
  "open_rb (env\<lparr>os_remove_result := r\<rparr>) = open_rb env"
  "reply_video (env\<lparr>os_remove_result := r\<rparr>) = reply_video env"
  "log_to_db (env\<lparr>os_remove_result := r\<rparr>) = log_to_db env"
  by (simp_all add: fun_eq_iff reply_text_def edit_text_def gdown_download_def open_rb_def
      reply_video_def log_to_db_def
      cong: option.case_cong sum.case_cong prod.case_cong if_cong)

lemma before_finally_env:
  "before_finally (env\<lparr>os_remove_result := r\<rparr>) upd w = before_finally env upd w"
  by (simp add: before_finally_def try_body_def except_telegram_error_def except_exception_def
      calls_env cong: option.case_cong sum.case_cong prod.case_cong if_cong)

lemma try_body_output_path:
  assumes "gdown_download_result env (message_text upd) (files w) = (Inr (Some p), fs)"
  shows "fst (snd (try_body env upd n w)) = Some p"
    and "files (snd (snd (try_body env upd n w))) = fs"
  using assms
  by (simp_all add: try_body_def case_prod_beta Let_def split: sum.split option.split)

lemma before_finally_output_path:
  assumes "sublist host_marker (message_text upd)"
    and "reply_text_result env downloading_text = None"
    and "gdown_download_result env (message_text upd) (files w) = (Inr (Some p), fs)"
  shows "fst (snd (before_finally env upd w)) = Some p"
    and "files (snd (snd (before_finally env upd w))) = fs"
proof -
  have files1: "files (snd (reply_text env downloading_text w)) = files w"
    by simp
  note out = try_body_output_path [of env upd "snd (reply_text env downloading_text w)" p fs
      "length (chat w)", unfolded files1, OF assms(3)]
  show "fst (snd (before_finally env upd w)) = Some p"
    using assms(1,2) out(1)
    by (simp add: before_finally_def case_prod_beta split: sum.split)
  show "files (snd (snd (before_finally env upd w))) = fs"
    using assms(1,2) out(2)
    by (simp add: before_finally_def case_prod_beta split: sum.split)
qed

lemma log_to_db_trace_prefix:
  "prefix xs (trace w) \<Longrightarrow> prefix xs (trace (snd (log_to_db env u l f s w)))"
  by (auto simp: log_to_db_def emit_def logger_error_def Let_def split: option.split)

lemma except_trace_prefix:
  "prefix xs (trace w) \<Longrightarrow> prefix xs (trace (snd (except_telegram_error env upd n e w)))"
  "prefix xs (trace w) \<Longrightarrow> prefix xs (trace (snd (except_exception env upd n e w)))"
  by (auto simp: except_telegram_error_def except_exception_def case_prod_beta Let_def
      intro!: log_to_db_trace_prefix split: sum.split option.split)

lemma finally_clause_trace_prefix:
  "prefix xs (trace w) \<Longrightarrow> prefix xs (trace (finally_clause env out w))"
  by (simp add: finally_clause_trace)

lemma try_body_trace_prefix:
  "prefix (trace w @ [GdownDownload (message_text upd)])
     (trace (snd (snd (try_body env upd n w))))"
  by (auto simp: try_body_def case_prod_beta Let_def
      intro!: prefix_prefix log_to_db_trace_prefix split: sum.split option.split)

lemma before_finally_trace_prefix:
  assumes "sublist host_marker (message_text upd)"
  shows "prefix (trace w @ [ReplyText downloading_text])
           (trace (snd (snd (before_finally env upd w))))"
    and "reply_text_result env downloading_text = None \<Longrightarrow>
         prefix (trace w @ [ReplyText downloading_text, GdownDownload (message_text upd)])
           (trace (snd (snd (before_finally env upd w))))"
proof -
  let ?w1 = "snd (reply_text env downloading_text w)"
  have body: "prefix (trace w @ [ReplyText downloading_text, GdownDownload (message_text upd)])
      (trace (snd (snd (try_body env upd n ?w1))))" for n
    using try_body_trace_prefix [of ?w1 upd env n] by simp
  then have body': "prefix (trace w @ [ReplyText downloading_text])
      (trace (snd (snd (try_body env upd n ?w1))))" for n
    using append_prefixD [of "trace w @ [ReplyText downloading_text]"
        "[GdownDownload (message_text upd)]"] by simp
  show "prefix (trace w @ [ReplyText downloading_text])
           (trace (snd (snd (before_finally env upd w))))"
    using assms body'
    by (auto simp: before_finally_def case_prod_beta intro!: except_trace_prefix
        split: sum.split option.split)
  show "prefix (trace w @ [ReplyText downloading_text, GdownDownload (message_text upd)])
           (trace (snd (snd (before_finally env upd w))))"
    if "reply_text_result env downloading_text = None"
    using assms that body
    by (auto simp: before_finally_def case_prod_beta intro!: except_trace_prefix
        split: sum.split option.split)
qed

lemma confirmation_rejected_path:
  assumes "gdown_download_result env (message_text upd) (files w) = (Inr (Some p), fs)"
    and "edit_text_result env uploading_text = None"
    and "open_result env p fs = None"
    and "reply_video_result env p = Inr (Some file_id)"
    and "sqlite3_connect_result env DB_FILE = None"
    and "edit_text_result env complete_text = Some e"
  shows "try_body env upd n w =
    (Inl e, Some p,
     snd (edit_text env n complete_text
      (snd (log_to_db env (from_user_id upd) (message_text upd) (Some file_id) ''done''
       (snd (reply_video env p
        (snd (open_rb env p
         (snd (edit_text env n uploading_text
          (snd (gdown_download env (message_text upd) w)))))))))))) "
  using assms
  by (simp add: try_body_def case_prod_beta Let_def)

lemma confirmation_rejected_run:
  assumes "sublist host_marker (message_text upd)"
    and "reply_text_result env downloading_text = None"
    and "gdown_download_result env (message_text upd) (files w) = (Inr (Some p), fs)"
    and "edit_text_result env uploading_text = None"
    and "open_result env p fs = None"
    and "reply_video_result env p = Inr (Some file_id)"
    and "sqlite3_connect_result env DB_FILE = None"
    and "edit_text_result env complete_text = Some (Exn TelegramError m)"
    and "edit_text_result env (telegram_error_text m) = None"
  shows "ledger_calls (snd (handle_link env upd w)) = ledger_calls w @
           [LogToDb (str_int (from_user_id upd)) (message_text upd) (Some file_id) ''done'',
            LogToDb (str_int (from_user_id upd)) (message_text upd) None ''error'']"
proof -
  have files1: "files (snd (reply_text env downloading_text w)) = files w"
    by simp
  note path = raised_path(1) [OF assms(1,2)
      confirmation_rejected_path [of env upd "snd (reply_text env downloading_text w)" p fs
        file_id "Exn TelegramError m" "length (chat w)", unfolded files1, OF assms(3-8)]]
  show ?thesis
    using assms(9) by (simp add: handle_link_before_finally path ledger_calls_def)
qed

lemma upload_without_video_path:
  assumes "gdown_download_result env (message_text upd) (files w) = (Inr (Some p), fs)"
    and "edit_text_result env uploading_text = None"
    and "open_result env p fs = None"
    and "reply_video_result env p = Inr None"
  shows "try_body env upd n w =
    (Inl (Exn AttributeError none_file_id_text), Some p,
     snd (reply_video env p
      (snd (open_rb env p
       (snd (edit_text env n uploading_text
        (snd (gdown_download env (message_text upd) w)))))))) "
  using assms
  by (simp add: try_body_def case_prod_beta Let_def)

lemma upload_without_video_run:
  assumes "sublist host_marker (message_text upd)"
    and "reply_text_result env downloading_text = None"
    and "gdown_download_result env (message_text upd) (files w) = (Inr (Some p), fs)"
    and "edit_text_result env uploading_text = None"
    and "open_result env p fs = None"
    and "reply_video_result env p = Inr None"
    and "edit_text_result env (unexpected_error_text none_file_id_text) = None"
  shows "ledger_calls (snd (handle_link env upd w)) = ledger_calls w @
           [LogToDb (str_int (from_user_id upd)) (message_text upd) None ''error'']"
proof -
  have files1: "files (snd (reply_text env downloading_text w)) = files w"
    by simp
  note path = raised_path(2) [OF assms(1,2)
      upload_without_video_path [of env upd "snd (reply_text env downloading_text w)" p fs
        "length (chat w)", unfolded files1, OF assms(3-6)]]
  show ?thesis
    using assms(7) by (simp add: handle_link_before_finally path ledger_calls_def)
qed

lemma upload_base_exception_run:
  assumes "sublist host_marker (message_text upd)"
    and "reply_text_result env downloading_text = None"
    and "gdown_download_result env (message_text upd) (files w) = (Inr (Some p), fs)"
    and "edit_text_result env uploading_text = None"
    and "open_result env p fs = None"
    and "reply_video_result env p = Inl e"
    and "class_of e \<noteq> TelegramError" and "\<not> is_exception (class_of e)"
  shows "fst (handle_link env upd w) = Inl e"
    and "ledger_calls (snd (handle_link env upd w)) = ledger_calls w"
proof -
  have files1: "files (snd (reply_text env downloading_text w)) = files w"
    by simp
  note path = raised_path(3) [OF assms(1,2)
      upload_raises_path [of env upd "snd (reply_text env downloading_text w)" p fs
        e "length (chat w)", unfolded files1, OF assms(3-6)] assms(7,8)]
  show "fst (handle_link env upd w) = Inl e"
    by (simp add: handle_link_before_finally path)
  show "ledger_calls (snd (handle_link env upd w)) = ledger_calls w"
    by (simp add: handle_link_before_finally path ledger_calls_def)
qed

lemma removal_fails_path:
  assumes "sublist host_marker (message_text upd)"
    and "reply_text_result env downloading_text = None"
    and "gdown_download_result env (message_text upd) (files w) = (Inr (Some p), fs)"
    and "edit_text_result env uploading_text = None"
    and "open_result env p fs = None"
    and "reply_video_result env p = Inr (Some file_id)"
    and "sqlite3_connect_result env DB_FILE = None"
    and "edit_text_result env complete_text = None"
    and "os_remove_result env p = Some m"
    and "p \<noteq> []" and "p \<in> fs"
  shows "ReplyVideo p \<in> set (platform_calls (snd (handle_link env upd w)))
       \<and> fst (handle_link env upd w) = Inr END
       \<and> os_path_exists p (snd (handle_link env upd w))"
  using assms(3-11)
  by (simp add: handle_link_before_finally success_path [OF assms(1-8)] platform_calls_def
      os_path_exists_def finally_clause_files)

subsection \<open>The examples\<close>

lemma str_int_42: "str_int 42 = ''42''"
  by code_simp

lemma drive_update_valid: "sublist host_marker (message_text drive_update)"
  by (simp add: drive_update_def host_marker_def sublist_code)

lemma too_big_example: "sublist too_big_marker ''File is too big: 2147483648 bytes''"
  by (simp add: too_big_marker_def sublist_code)

lemma both_markers_example:
  "sublist too_big_marker ''Timed out: File is too big''"
  "sublist timed_out_marker ''Timed out: File is too big''"
  by (simp_all add: too_big_marker_def timed_out_marker_def sublist_code)

lemma timed_out_example:
  "\<not> sublist too_big_marker ''Timed out''"
  "sublist timed_out_marker ''Timed out''"
  by (simp_all add: too_big_marker_def timed_out_marker_def sublist_code)

lemma status_texts_differ:
  "uploading_text \<noteq> timed_out_text"
  "uploading_text \<noteq> too_big_text"
  by (simp_all add: uploading_text_def timed_out_text_def too_big_text_def cross_mark_def)

lemma plain_update_valid: "sublist host_marker (message_text plain_update)"
  by (simp add: plain_update_def host_marker_def sublist_code)

lemma other_update_invalid: "\<not> sublist host_marker (message_text other_update)"
  by (simp add: other_update_def host_marker_def sublist_code)

lemma next_row_id_Nil: "next_row_id 0 [] = 1"
  by (simp add: next_row_id_def)

section \<open>The claims\<close>

subsection \<open>C1: a successful conversion\<close>

text \<open>
  Claim C1, as amended. When the link is accepted, the download returns a path \<open>p\<close>, the
  file opens and the upload returns a message whose \<^verbatim>\<open>video\<close> carries a file id, and
  moreover the storage file can be opened, the platform accepts the confirmation edit and
  \<^verbatim>\<open>os.remove\<close> does not fail, then \<^verbatim>\<open>handle_link\<close> returns \<open>END\<close>, calls
  \<^verbatim>\<open>log_to_db\<close> exactly once, with status \<^verbatim>\<open>done\<close> and that file id (one new row
  with these values, when the table exists and the engine accepts the insert), and \<open>p\<close>
  does not exist afterwards.
\<close>

theorem handle_link_success:
  assumes "sublist host_marker (message_text upd)"
    and "reply_text_result env downloading_text = None"
    and "gdown_download_result env (message_text upd) (files w) = (Inr (Some p), fs)"
    and "edit_text_result env uploading_text = None"
    and "open_result env p fs = None"
    and "reply_video_result env p = Inr (Some file_id)"
    and "sqlite3_connect_result env DB_FILE = None"
    and "edit_text_result env complete_text = None"
    and "os_remove_result env p = None"
  shows "fst (handle_link env upd w) = Inr END
       \<and> ledger_calls (snd (handle_link env upd w)) = ledger_calls w @
           [LogToDb (str_int (from_user_id upd)) (message_text upd) (Some file_id) ''done'']
       \<and> (''videos'' \<in> set (table_names (db w))
            \<and> sqlite3_execute_result env InsertIntoVideos = None
            \<and> sqlite3_commit_result env = None \<longrightarrow>
           videos (snd (handle_link env upd w)) = videos w @
             [\<lparr>row_id = next_row_id (sqlite_sequence w ''videos'') (videos w),
             user_id = str_int (from_user_id upd),
               original_link = message_text upd, telegram_file = Some file_id,
               status = ''done'', created_at = current_timestamp env\<rparr>])
       \<and> \<not> os_path_exists p (snd (handle_link env upd w))"
  using assms(3-9)
  by (simp add: handle_link_before_finally success_path [OF assms(1-8)] ledger_calls_def
      os_path_exists_def finally_clause_files log_to_db_videos)

theorem handle_link_success_witness:
  "fst (handle_link example_env drive_update example_world) = Inr END
   \<and> ledger_calls (snd (handle_link example_env drive_update example_world)) =
       [LogToDb ''42'' ''https://drive.google.com/file/d/ABC/view'' (Some ''FILE123'') ''done'']
   \<and> videos (snd (handle_link example_env drive_update example_world)) =
       [\<lparr>row_id = 1, user_id = ''42'',
         original_link = ''https://drive.google.com/file/d/ABC/view'',
         telegram_file = Some ''FILE123'', status = ''done'',
         created_at = ''2025-01-01 00:00:00''\<rparr>]
   \<and> \<not> os_path_exists ''video.mp4'' (snd (handle_link example_env drive_update example_world))"
  using handle_link_success [of drive_update example_env example_world "''video.mp4''"
      "{''video.mp4''}" "''FILE123''"] drive_update_valid str_int_42 next_row_id_Nil
  by (simp add: example_env_def example_world_def ledger_calls_def videos_def table_names_def
      drive_update_def)

text \<open>
  The claim as stated fails when the removal fails: the download returned a path, the upload
  succeeded, the handler returned \<open>END\<close>, and the file is still there.
\<close>

theorem handle_link_success_file_remains:
  "gdown_download_result env_remove_fails (message_text drive_update) (files example_world)
     = (Inr (Some ''video.mp4''), {''video.mp4''})
   \<and> reply_video_result env_remove_fails ''video.mp4'' = Inr (Some ''FILE123'')
   \<and> ReplyVideo ''video.mp4''
       \<in> set (platform_calls (snd (handle_link env_remove_fails drive_update example_world)))
   \<and> fst (handle_link env_remove_fails drive_update example_world) = Inr END
   \<and> os_path_exists ''video.mp4''
       (snd (handle_link env_remove_fails drive_update example_world))"
  using removal_fails_path [of drive_update env_remove_fails example_world "''video.mp4''"
      "{''video.mp4''}" "''FILE123''" "''Permission denied''"] drive_update_valid
  by (simp add: env_remove_fails_def example_env_def example_world_def)

text \<open>
  The confirmation edit is inside the \<^verbatim>\<open>try\<close> statement, after \<^verbatim>\<open>log_to_db\<close>. When
  the platform rejects it, the \<^verbatim>\<open>except TelegramError\<close> clause runs and appends a second
  record, with status \<^verbatim>\<open>error\<close>, for an upload that succeeded.
\<close>

lemma confirmation_rejected_two_records:
  "ledger_calls (snd (handle_link env_confirmation_rejected drive_update example_world)) =
     [LogToDb ''42'' ''https://drive.google.com/file/d/ABC/view'' (Some ''FILE123'') ''done'',
      LogToDb ''42'' ''https://drive.google.com/file/d/ABC/view'' None ''error'']"
proof -
  have differ: "telegram_error_text ''Timed out'' \<noteq> complete_text"
    "uploading_text \<noteq> complete_text"
    by (simp_all add: telegram_error_text_def too_big_marker_def timed_out_marker_def
        sublist_code timed_out_text_def cross_mark_def complete_text_def uploading_text_def)
  show ?thesis
    using confirmation_rejected_run [of drive_update env_confirmation_rejected example_world
        "''video.mp4''" "{''video.mp4''}" "''FILE123''" "''Timed out''"]
      drive_update_valid str_int_42 differ
    by (simp add: env_confirmation_rejected_def example_env_def example_world_def
        ledger_calls_def drive_update_def)
qed

text \<open>
  An upload can succeed with a message that has no \<^verbatim>\<open>video\<close>. Reading
  \<^verbatim>\<open>sent_video.video.file_id\<close> then raises \<^verbatim>\<open>AttributeError\<close>, the
  \<^verbatim>\<open>except Exception\<close> clause runs, and the record written has status \<^verbatim>\<open>error\<close>.
\<close>

lemma upload_without_video_error_record:
  "reply_video_result env_upload_without_video ''video.mp4'' = Inr None
   \<and> ledger_calls (snd (handle_link env_upload_without_video drive_update example_world)) =
       [LogToDb ''42'' ''https://drive.google.com/file/d/ABC/view'' None ''error'']"
  using upload_without_video_run [of drive_update env_upload_without_video example_world
      "''video.mp4''" "{''video.mp4''}"] drive_update_valid str_int_42
  by (simp add: env_upload_without_video_def example_env_def example_world_def
      ledger_calls_def drive_update_def)

subsection \<open>C3: a text without the host marker\<close>

text \<open>
  Claim C3, as amended. For every submitted text that does not contain
  \<^verbatim>\<open>drive.google.com\<close>, the only call \<^verbatim>\<open>handle_link\<close> makes is the reply with the
  warning: nothing is downloaded or uploaded, \<^verbatim>\<open>log_to_db\<close> is not called, and the
  database and the files are untouched. When the platform accepts that reply, the user sees
  the warning and the handler returns \<open>END\<close>.
\<close>

theorem handle_link_invalid_link:
  assumes "\<not> sublist host_marker (message_text upd)"
  shows "trace (snd (handle_link env upd w)) = trace w @ [ReplyText warning_text]
       \<and> db (snd (handle_link env upd w)) = db w
       \<and> files (snd (handle_link env upd w)) = files w
       \<and> (reply_text_result env warning_text = None \<longrightarrow>
            fst (handle_link env upd w) = Inr END
            \<and> chat (snd (handle_link env upd w)) = chat w @ [TextMessage warning_text])"
  by (simp add: handle_link_before_finally invalid_path [OF assms])

theorem handle_link_invalid_link_witness:
  "trace (snd (handle_link example_env other_update example_world)) = [ReplyText warning_text]
   \<and> db (snd (handle_link example_env other_update example_world)) = [(''videos'', [])]
   \<and> files (snd (handle_link example_env other_update example_world)) = {}
   \<and> fst (handle_link example_env other_update example_world) = Inr END
   \<and> chat (snd (handle_link example_env other_update example_world)) = [TextMessage warning_text]"
  using handle_link_invalid_link [of other_update example_env example_world] other_update_invalid
  by (simp add: example_env_def example_world_def)

text \<open>
  The reply with the warning is made outside every \<^verbatim>\<open>try\<close> statement. When the platform
  rejects it, the error leaves the handler, which then does not return \<open>END\<close>.
\<close>

theorem handle_link_invalid_link_reply_rejected:
  "\<not> sublist host_marker (message_text other_update)
   \<and> fst (handle_link env_replies_rejected other_update example_world)
       = Inl (Exn TelegramError ''Timed out'')"
  using other_update_invalid
  by (simp add: handle_link_before_finally invalid_path env_replies_rejected_def example_env_def)

subsection \<open>C4: the download returns nothing\<close>

text \<open>
  Claim C4, as amended. When the link is accepted and \<^verbatim>\<open>gdown.download\<close> returns
  \<^verbatim>\<open>None\<close>, the last message the handler sends is the edit of the status message to the
  unexpected-error template carrying \<^verbatim>\<open>Download failed. File might be private or deleted.\<close>
  When the platform accepts this edit, the user sees that text and \<^verbatim>\<open>log_to_db\<close> is
  called exactly once, with status \<^verbatim>\<open>error\<close> and no file reference (one new row with
  these values when the storage engine accepts the insert).
\<close>

theorem handle_link_download_absent:
  assumes "sublist host_marker (message_text upd)"
    and "reply_text_result env downloading_text = None"
    and "gdown_download_result env (message_text upd) (files w) = (Inr None, fs)"
  shows "platform_calls (snd (handle_link env upd w)) = platform_calls w @
           [ReplyText downloading_text,
            EditText (length (chat w)) (unexpected_error_text download_failed_text)]
       \<and> (edit_text_result env (unexpected_error_text download_failed_text) = None \<longrightarrow>
            chat (snd (handle_link env upd w)) =
              chat w @ [TextMessage (unexpected_error_text download_failed_text)]
            \<and> ledger_calls (snd (handle_link env upd w)) = ledger_calls w @
                [LogToDb (str_int (from_user_id upd)) (message_text upd) None ''error'']
            \<and> (sqlite3_connect_result env DB_FILE = None
                 \<and> ''videos'' \<in> set (table_names (db w))
                 \<and> sqlite3_execute_result env InsertIntoVideos = None
                 \<and> sqlite3_commit_result env = None \<longrightarrow>
                videos (snd (handle_link env upd w)) = videos w @
                  [\<lparr>row_id = next_row_id (sqlite_sequence w ''videos'') (videos w),
             user_id = str_int (from_user_id upd),
                    original_link = message_text upd, telegram_file = None,
                    status = ''error'', created_at = current_timestamp env\<rparr>]))"
  using download_absent_run [OF assms]
  by simp

theorem handle_link_download_absent_witness:
  "platform_calls (snd (handle_link env_download_absent drive_update example_world)) =
     [ReplyText downloading_text, EditText 0 (unexpected_error_text download_failed_text)]
   \<and> chat (snd (handle_link env_download_absent drive_update example_world)) =
       [TextMessage (unexpected_error_text download_failed_text)]
   \<and> ledger_calls (snd (handle_link env_download_absent drive_update example_world)) =
       [LogToDb ''42'' ''https://drive.google.com/file/d/ABC/view'' None ''error'']
   \<and> videos (snd (handle_link env_download_absent drive_update example_world)) =
       [\<lparr>row_id = 1, user_id = ''42'',
         original_link = ''https://drive.google.com/file/d/ABC/view'',
         telegram_file = None, status = ''error'', created_at = ''2025-01-01 00:00:00''\<rparr>]"
  using handle_link_download_absent [of drive_update env_download_absent example_world "{}"]
    drive_update_valid str_int_42 next_row_id_Nil
  by (simp add: env_download_absent_def example_env_def example_world_def ledger_calls_def
      platform_calls_def videos_def table_names_def drive_update_def)

text \<open>
  The edit that reports the failure is made inside the \<^verbatim>\<open>except\<close> clause, before
  \<^verbatim>\<open>log_to_db\<close>. When the platform rejects it, no record is written and the user still
  sees the progress message.
\<close>

theorem handle_link_download_absent_edit_rejected:
  "gdown_download_result env_download_absent_edits_rejected (message_text drive_update)
       (files example_world) = (Inr None, {})
   \<and> ledger_calls (snd (handle_link env_download_absent_edits_rejected drive_update
                          example_world)) = []
   \<and> chat (snd (handle_link env_download_absent_edits_rejected drive_update example_world)) =
       [TextMessage downloading_text]"
  using download_absent_run(2,3) [of drive_update env_download_absent_edits_rejected
      example_world "{}"] drive_update_valid
  by (simp add: env_download_absent_edits_rejected_def env_download_absent_def example_env_def
      example_world_def ledger_calls_def)

subsection \<open>C2: the message for a failed upload\<close>

text \<open>
  Claim C2, as amended. When \<^verbatim>\<open>reply_video\<close> raises a \<^verbatim>\<open>TelegramError\<close> with
  message \<open>m\<close>, the last message the handler sends is an edit of the status message whose
  text is: the fixed too-large text when \<open>m\<close> contains \<^verbatim>\<open>File is too big\<close>; else the
  fixed timeout text when \<open>m\<close> contains \<^verbatim>\<open>Timed out\<close>; otherwise the upload-error
  template followed by \<open>m\<close> itself. When the platform accepts that edit, it is what the
  user sees.
\<close>

theorem handle_link_upload_error_message:
  assumes "sublist host_marker (message_text upd)"
    and "reply_text_result env downloading_text = None"
    and "gdown_download_result env (message_text upd) (files w) = (Inr (Some p), fs)"
    and "edit_text_result env uploading_text = None"
    and "open_result env p fs = None"
    and "reply_video_result env p = Inl (Exn TelegramError m)"
  shows "let t = (if sublist too_big_marker m then too_big_text
                  else if sublist timed_out_marker m then timed_out_text
                  else cross_mark @ '' An error occurred during upload: '' @ m)
         in platform_calls (snd (handle_link env upd w)) = platform_calls w @
              [ReplyText downloading_text, EditText (length (chat w)) uploading_text,
               ReplyVideo p, EditText (length (chat w)) t]
          \<and> (edit_text_result env t = None \<longrightarrow>
               chat (snd (handle_link env upd w)) = chat w @ [TextMessage t])"
  using upload_error_run(1,2) [OF assms]
  by (simp add: telegram_error_text_def upload_error_text_def Let_def)

theorem handle_link_upload_error_message_witness:
  "platform_calls (snd (handle_link env_upload_too_big drive_update example_world)) =
     [ReplyText downloading_text, EditText 0 uploading_text, ReplyVideo ''video.mp4'',
      EditText 0 too_big_text]
   \<and> chat (snd (handle_link env_upload_too_big drive_update example_world)) =
       [TextMessage too_big_text]"
  using handle_link_upload_error_message [of drive_update env_upload_too_big example_world
      "''video.mp4''" "{''video.mp4''}" "''File is too big: 2147483648 bytes''"]
    drive_update_valid too_big_example
  by (simp add: env_upload_too_big_def example_env_def example_world_def platform_calls_def)

text \<open>
  The edit that reports the failure is not guarded. When the platform rejects it, the user
  does not receive the text chosen: the status message still shows the upload in progress,
  and the error of the edit leaves the handler.
\<close>

theorem handle_link_upload_error_not_received:
  "reply_video_result env_upload_timed_out_edit_rejected ''video.mp4''
     = Inl (Exn TelegramError ''Timed out'')
   \<and> \<not> sublist too_big_marker ''Timed out'' \<and> sublist timed_out_marker ''Timed out''
   \<and> chat (snd (handle_link env_upload_timed_out_edit_rejected drive_update example_world))
       = [TextMessage uploading_text]
   \<and> fst (handle_link env_upload_timed_out_edit_rejected drive_update example_world)
       = Inl (Exn TelegramError ''Timed out'')"
proof -
  have chosen: "telegram_error_text ''Timed out'' = timed_out_text"
    using timed_out_example by (simp add: telegram_error_text_def)
  show ?thesis
    using upload_error_run(4) [of drive_update env_upload_timed_out_edit_rejected example_world
        "''video.mp4''" "{''video.mp4''}" "''Timed out''" "Exn TelegramError ''Timed out''"]
      drive_update_valid timed_out_example status_texts_differ chosen
    by (simp add: env_upload_timed_out_edit_rejected_def example_env_def example_world_def)
qed

subsection \<open>C9: the too-large text comes first\<close>

text \<open>
  Claim C9, as amended. When the message of the \<^verbatim>\<open>TelegramError\<close> raised by
  \<^verbatim>\<open>reply_video\<close> contains both \<^verbatim>\<open>File is too big\<close> and \<^verbatim>\<open>Timed out\<close>, the handler
  sends the too-large text, which differs from the timeout text, and sends nothing after
  it. When the platform accepts that edit, it is what the user sees.
\<close>

theorem handle_link_oversize_precedence:
  assumes "sublist host_marker (message_text upd)"
    and "reply_text_result env downloading_text = None"
    and "gdown_download_result env (message_text upd) (files w) = (Inr (Some p), fs)"
    and "edit_text_result env uploading_text = None"
    and "open_result env p fs = None"
    and "reply_video_result env p = Inl (Exn TelegramError m)"
    and "sublist too_big_marker m"
    and "sublist timed_out_marker m"
  shows "platform_calls (snd (handle_link env upd w)) = platform_calls w @
           [ReplyText downloading_text, EditText (length (chat w)) uploading_text, ReplyVideo p,
            EditText (length (chat w)) too_big_text]
       \<and> too_big_text \<noteq> timed_out_text
       \<and> (edit_text_result env too_big_text = None \<longrightarrow>
            chat (snd (handle_link env upd w)) = chat w @ [TextMessage too_big_text])"
proof -
  have "telegram_error_text m = too_big_text"
    using assms(7) by (simp add: telegram_error_text_def)
  moreover have "too_big_text \<noteq> timed_out_text"
    by (simp add: too_big_text_def timed_out_text_def)
  ultimately show ?thesis
    using upload_error_run(1,2) [OF assms(1-6)] by simp
qed

theorem handle_link_oversize_precedence_witness:
  "platform_calls (snd (handle_link env_upload_both_markers drive_update example_world)) =
     [ReplyText downloading_text, EditText 0 uploading_text, ReplyVideo ''video.mp4'',
      EditText 0 too_big_text]
   \<and> too_big_text \<noteq> timed_out_text
   \<and> chat (snd (handle_link env_upload_both_markers drive_update example_world)) =
       [TextMessage too_big_text]"
  using handle_link_oversize_precedence [of drive_update env_upload_both_markers example_world
      "''video.mp4''" "{''video.mp4''}" "''Timed out: File is too big''"]
    drive_update_valid both_markers_example
  by (simp add: env_upload_both_markers_def example_env_def example_world_def platform_calls_def)

text \<open>
  When the platform rejects the edit with the too-large text, the user receives neither
  that text nor the timeout text.
\<close>

theorem handle_link_oversize_not_received:
  "reply_video_result env_upload_both_markers_edit_rejected ''video.mp4''
     = Inl (Exn TelegramError ''Timed out: File is too big'')
   \<and> sublist too_big_marker ''Timed out: File is too big''
   \<and> sublist timed_out_marker ''Timed out: File is too big''
   \<and> chat (snd (handle_link env_upload_both_markers_edit_rejected drive_update example_world))
       = [TextMessage uploading_text]"
proof -
  have chosen: "telegram_error_text ''Timed out: File is too big'' = too_big_text"
    using both_markers_example by (simp add: telegram_error_text_def)
  show ?thesis
    using upload_error_run(4) [of drive_update env_upload_both_markers_edit_rejected
        example_world "''video.mp4''" "{''video.mp4''}" "''Timed out: File is too big''"
        "Exn TelegramError ''Timed out''"]
      drive_update_valid both_markers_example status_texts_differ chosen
    by (simp add: env_upload_both_markers_edit_rejected_def env_upload_both_markers_def
        example_env_def example_world_def)
qed

subsection \<open>C7: the ledger append when the storage cannot be opened\<close>

text \<open>
  Claim C7 says that \<^verbatim>\<open>log_to_db\<close> never raises and that the user sees the same
  whether or not the write succeeded. That holds for an error of \<^verbatim>\<open>execute\<close> or
  \<^verbatim>\<open>commit\<close> (lemma \<open>log_to_db_frame\<close>), but not for an error of
  \<^verbatim>\<open>sqlite3.connect\<close>: the \<^verbatim>\<open>finally\<close> clause then reads the unassigned \<^verbatim>\<open>conn\<close>.
  At a storage file that cannot be opened, \<^verbatim>\<open>log_to_db\<close> raises
  \<^verbatim>\<open>UnboundLocalError\<close>; in a conversation whose download and upload both succeeded the
  user is then told of an unexpected error, and the error leaves \<^verbatim>\<open>handle_link\<close>.
\<close>

theorem log_to_db_raises_when_connect_fails:
  "fst (log_to_db env_storage_unreachable 42 ''https://drive.google.com/file/d/ABC/view''
         None ''error'' example_world) = Inl (Exn UnboundLocalError unbound_conn_text)
   \<and> fst (handle_link env_storage_unreachable drive_update example_world)
       = Inl (Exn UnboundLocalError unbound_conn_text)
   \<and> chat (snd (handle_link env_storage_unreachable drive_update example_world))
       = [TextMessage (unexpected_error_text unbound_conn_text), VideoMessage ''FILE123'']
   \<and> chat (snd (handle_link example_env drive_update example_world))
       = [TextMessage complete_text, VideoMessage ''FILE123'']"
proof -
  have "chat (snd (handle_link example_env drive_update example_world))
       = [TextMessage complete_text, VideoMessage ''FILE123'']"
    using success_path [of drive_update example_env example_world "''video.mp4''"
      "{''video.mp4''}" "''FILE123''"] drive_update_valid
    by (simp add: handle_link_before_finally example_env_def example_world_def
        list_update_append)
  then show ?thesis
    using ledger_raises_run [of drive_update env_storage_unreachable example_world
      "''video.mp4''" "{''video.mp4''}" "''FILE123''" "''unable to open database file''"]
      drive_update_valid
    by (simp add: env_storage_unreachable_def example_env_def example_world_def)
qed

subsection \<open>C8: initialising twice\<close>




subsection \<open>C6: which errors leave the handler\<close>




text \<open>
  Neither \<^verbatim>\<open>except\<close> clause catches a cancellation: raised by the upload, it leaves
  the handler, and no record is written.
\<close>

lemma upload_cancelled_leaves_handler:
  "fst (handle_link env_upload_cancelled drive_update example_world)
     = Inl (Exn CancelledError '''')
   \<and> ledger_calls (snd (handle_link env_upload_cancelled drive_update example_world)) = []"
  using upload_base_exception_run [of drive_update env_upload_cancelled example_world
      "''video.mp4''" "{''video.mp4''}" "Exn CancelledError ''''"] drive_update_valid
  by (simp add: env_upload_cancelled_def example_env_def example_world_def ledger_calls_def)

subsection \<open>C5: the cleanup\<close>

text \<open>
  Claim C5. Whenever the download has returned a path \<open>p\<close> that names an existing file,
  then on every branch the last thing \<^verbatim>\<open>handle_link\<close> does, after all that precedes its
  \<^verbatim>\<open>finally\<close> clause, is to call \<^verbatim>\<open>os.remove\<close> on \<open>p\<close> and to log the outcome; when
  the removal succeeds the file is gone. The outcome of the removal changes nothing else:
  with any other behaviour \<open>r\<close> of \<^verbatim>\<open>os.remove\<close> the handler returns or raises the same,
  and the chat, the database, the ledger calls and the platform calls are the same.
\<close>

theorem handle_link_cleanup:
  "(sublist host_marker (message_text upd)
      \<and> reply_text_result env downloading_text = None
      \<and> gdown_download_result env (message_text upd) (files w) = (Inr (Some p), fs)
      \<and> p \<noteq> [] \<and> p \<in> fs \<longrightarrow>
      trace (snd (handle_link env upd w)) =
        trace (snd (snd (before_finally env upd w))) @
          [OsRemove p,
           (case os_remove_result env p of
              None \<Rightarrow> LoggerInfo (''Successfully deleted local file: '' @ p)
            | Some m \<Rightarrow> LoggerError (''Error deleting file '' @ p @ '': '' @ m))]
      \<and> (os_remove_result env p = None \<longrightarrow> \<not> os_path_exists p (snd (handle_link env upd w))))
   \<and> fst (handle_link (env\<lparr>os_remove_result := r\<rparr>) upd w) = fst (handle_link env upd w)
   \<and> chat (snd (handle_link (env\<lparr>os_remove_result := r\<rparr>) upd w))
       = chat (snd (handle_link env upd w))
   \<and> db (snd (handle_link (env\<lparr>os_remove_result := r\<rparr>) upd w))
       = db (snd (handle_link env upd w))
   \<and> ledger_calls (snd (handle_link (env\<lparr>os_remove_result := r\<rparr>) upd w))
       = ledger_calls (snd (handle_link env upd w))
   \<and> platform_calls (snd (handle_link (env\<lparr>os_remove_result := r\<rparr>) upd w))
       = platform_calls (snd (handle_link env upd w))"
proof -
  have "trace (snd (handle_link env upd w)) =
        trace (snd (snd (before_finally env upd w))) @
          [OsRemove p,
           (case os_remove_result env p of
              None \<Rightarrow> LoggerInfo (''Successfully deleted local file: '' @ p)
            | Some m \<Rightarrow> LoggerError (''Error deleting file '' @ p @ '': '' @ m))]
      \<and> (os_remove_result env p = None \<longrightarrow> \<not> os_path_exists p (snd (handle_link env upd w)))"
    if "sublist host_marker (message_text upd)"
      and "reply_text_result env downloading_text = None"
      and "gdown_download_result env (message_text upd) (files w) = (Inr (Some p), fs)"
      and "p \<noteq> []" and "p \<in> fs"
    using before_finally_output_path [OF that(1-3)] that(4,5)
    by (simp add: handle_link_before_finally case_prod_beta finally_clause_trace
        finally_clause_files os_path_exists_def)
  moreover have "fst (handle_link (env\<lparr>os_remove_result := r\<rparr>) upd w)
      = fst (handle_link env upd w)"
    by (simp add: handle_link_outcome before_finally_env)
  moreover have "chat (snd (handle_link (env\<lparr>os_remove_result := r\<rparr>) upd w))
       = chat (snd (handle_link env upd w))"
    "db (snd (handle_link (env\<lparr>os_remove_result := r\<rparr>) upd w))
       = db (snd (handle_link env upd w))"
    "ledger_calls (snd (handle_link (env\<lparr>os_remove_result := r\<rparr>) upd w))
       = ledger_calls (snd (handle_link env upd w))"
    "platform_calls (snd (handle_link (env\<lparr>os_remove_result := r\<rparr>) upd w))
       = platform_calls (snd (handle_link env upd w))"
    by (simp_all add: handle_link_before_finally case_prod_beta before_finally_env
        ledger_calls_def platform_calls_def)
  ultimately show ?thesis
    by blast
qed

theorem handle_link_cleanup_witness:
  "trace (snd (handle_link env_remove_fails drive_update example_world)) =
     trace (snd (snd (before_finally env_remove_fails drive_update example_world))) @
       [OsRemove ''video.mp4'',
        LoggerError ''Error deleting file video.mp4: Permission denied'']
   \<and> fst (handle_link (env_remove_fails\<lparr>os_remove_result := (\<lambda>p. None)\<rparr>) drive_update
            example_world)
       = fst (handle_link env_remove_fails drive_update example_world)
   \<and> chat (snd (handle_link (env_remove_fails\<lparr>os_remove_result := (\<lambda>p. None)\<rparr>)
                  drive_update example_world))
       = chat (snd (handle_link env_remove_fails drive_update example_world))
   \<and> db (snd (handle_link (env_remove_fails\<lparr>os_remove_result := (\<lambda>p. None)\<rparr>)
                drive_update example_world))
       = db (snd (handle_link env_remove_fails drive_update example_world))"
  using handle_link_cleanup [of drive_update env_remove_fails example_world "''video.mp4''"
      "{''video.mp4''}" "\<lambda>p. None"] drive_update_valid
  by (simp add: env_remove_fails_def example_env_def example_world_def)

subsection \<open>C10: the validation is a substring test\<close>

text \<open>
  Claim C10, as amended. Any text that contains \<^verbatim>\<open>drive.google.com\<close> somewhere, with
  anything before and after it, passes the validation: the first call of the handler is the
  progress message, not the warning. Once the platform has accepted the progress message, the
  next call hands the text, unchanged, to \<^verbatim>\<open>gdown.download\<close>.
\<close>

theorem handle_link_substring_validation:
  assumes "message_text upd = pre @ host_marker @ suf"
  shows "prefix (trace w @ [ReplyText downloading_text]) (trace (snd (handle_link env upd w)))
       \<and> downloading_text \<noteq> warning_text
       \<and> (reply_text_result env downloading_text = None \<longrightarrow>
            prefix (trace w @ [ReplyText downloading_text,
                               GdownDownload (pre @ host_marker @ suf)])
              (trace (snd (handle_link env upd w))))"
proof -
  have valid: "sublist host_marker (message_text upd)"
    using assms by (simp add: sublist_def) blast
  have "downloading_text \<noteq> warning_text"
    by (simp add: downloading_text_def warning_text_def)
  then show ?thesis
    using before_finally_trace_prefix [OF valid, where w = w and env = env] assms
    by (simp add: handle_link_before_finally case_prod_beta finally_clause_trace_prefix)
qed

theorem handle_link_substring_validation_witness:
  "prefix [ReplyText downloading_text, GdownDownload ''my file is on drive.google.com'']
     (trace (snd (handle_link example_env plain_update example_world)))"
  using handle_link_substring_validation [of plain_update "''my file is on ''" "[]"
      example_world example_env]
  by (simp add: plain_update_def host_marker_def example_env_def example_world_def)

text \<open>
  The progress message is sent between the validation and the download. When the platform
  rejects it, a text that passed the validation never reaches \<^verbatim>\<open>gdown.download\<close>.
\<close>

theorem handle_link_valid_text_not_downloaded:
  "sublist host_marker (message_text plain_update)
   \<and> trace (snd (handle_link env_replies_rejected plain_update example_world))
       = [ReplyText downloading_text]"
  using plain_update_valid
  by (simp add: handle_link_before_finally before_finally_def case_prod_beta
      env_replies_rejected_def example_env_def example_world_def)

end
